theory Spec2Isabelle
  imports Main
begin

section \<open>Python values and string primitives\<close>

text \<open>
  The importer of \<^verbatim>\<open>triage/util/finding_importers/sarif_importer.py\<close> works on a SARIF
  document that was parsed from JSON. A parsed document is a tree of Python values: \<open>None\<close>,
  booleans, integers, strings, lists and dictionaries with string keys. A dictionary is kept as
  an association list in insertion order; \<open>map_of\<close> reads it.

  A Python string is a sequence of Unicode code points. Here it is the list of the bytes of its
  UTF-8 encoding, so that ASCII text is written as it is. Splitting at an ASCII character,
  joining, stripping an ASCII character and testing a suffix give on the bytes what they give on
  the code points. Where the code points themselves count (iteration, indexing, length, letter
  case) the bytes are cut into code points first, by \<open>utf8_chars\<close> below.
\<close>

datatype json =
    JNull
  | JBool bool
  | JInt int
  | JStr string
  | JList "json list"
  | JDict "(string \<times> json) list"

datatype error =
    ValueError string
  | AttributeError
  | TypeError
  | IndexError
  | KeyError
  | DoesNotExist

text \<open>\<^verbatim>\<open>s.split(c)\<close> for a separator of one character: never the empty list.\<close>

fun split_on :: "char \<Rightarrow> string \<Rightarrow> string list" where
  "split_on c [] = [[]]"
| "split_on c (x # xs) =
     (if x = c then [] # split_on c xs
      else (case split_on c xs of [] \<Rightarrow> [[x]] | w # ws \<Rightarrow> (x # w) # ws))"

text \<open>\<^verbatim>\<open>sep.join(parts)\<close>.\<close>

fun join_with :: "string \<Rightarrow> string list \<Rightarrow> string" where
  "join_with sep [] = []"
| "join_with sep [x] = x"
| "join_with sep (x # y # ys) = x @ sep @ join_with sep (y # ys)"

text \<open>\<^verbatim>\<open>s.endswith(t)\<close>.\<close>

definition endswith :: "string \<Rightarrow> string \<Rightarrow> bool" where
  "endswith s t = (length t \<le> length s \<and> drop (length s - length t) s = t)"

text \<open>\<^verbatim>\<open>s.strip(c)\<close> for one character \<open>c\<close>.\<close>

definition strip_char :: "char \<Rightarrow> string \<Rightarrow> string" where
  "strip_char c s = rev (dropWhile (\<lambda>x. x = c) (rev (dropWhile (\<lambda>x. x = c) s)))"

text \<open>\<^verbatim>\<open>os.path.sep\<close> and \<^verbatim>\<open>os.path.basename\<close> of \<^verbatim>\<open>posixpath\<close>: the text after the last slash.\<close>

definition sep :: char where
  "sep = CHR ''/''"

definition basename :: "string \<Rightarrow> string" where
  "basename p = rev (takeWhile (\<lambda>x. x \<noteq> sep) (rev p))"

text \<open>
  The code points of a string: in UTF-8 a byte \<^verbatim>\<open>10xxxxxx\<close> continues the code point that the
  bytes before it began, and every other byte begins one.
\<close>

definition is_continuation :: "char \<Rightarrow> bool" where
  "is_continuation c = (128 \<le> (of_char c :: nat) \<and> (of_char c :: nat) < 192)"

fun utf8_chars :: "string \<Rightarrow> string list" where
  "utf8_chars [] = []"
| "utf8_chars (c # cs) =
     (case utf8_chars cs of
        [] \<Rightarrow> [[c]]
      | w # ws \<Rightarrow>
          (case w of
             [] \<Rightarrow> [c] # ws
           | x # xs \<Rightarrow> if is_continuation x then (c # w) # ws else [c] # w # ws))"

text \<open>The two cases of an ASCII letter; every other byte is left as it is.\<close>

definition ascii_lower :: "char \<Rightarrow> char" where
  "ascii_lower c =
     (let n = (of_char c :: nat) in if 65 \<le> n \<and> n \<le> 90 then char_of (n + 32) else c)"

definition ascii_upper :: "char \<Rightarrow> char" where
  "ascii_upper c =
     (let n = (of_char c :: nat) in if 97 \<le> n \<and> n \<le> 122 then char_of (n - 32) else c)"

text \<open>
  \<^verbatim>\<open>s.upper()\<close> converts code point by code point with the full case mapping of Unicode; the
  importer compares the result with ASCII texts only. \<open>upper_code_point\<close> is the upper case of
  one code point when that is ASCII text, and \<open>None\<close> when it has a code point outside ASCII.
  Besides the ASCII characters, the code points with an upper case in ASCII are
  U+00DF (\<^verbatim>\<open>SS\<close>), U+0131 (\<^verbatim>\<open>I\<close>), U+017F (\<^verbatim>\<open>S\<close>) and the ligatures U+FB00 to U+FB06
  (\<^verbatim>\<open>FF\<close>, \<^verbatim>\<open>FI\<close>, \<^verbatim>\<open>FL\<close>, \<^verbatim>\<open>FFI\<close>, \<^verbatim>\<open>FFL\<close>, \<^verbatim>\<open>ST\<close>, \<^verbatim>\<open>ST\<close>). So \<open>upper s\<close> is \<open>Some t\<close> exactly
  when \<^verbatim>\<open>s.upper()\<close> is the ASCII text \<open>t\<close>.
\<close>

definition upper_code_point :: "string \<Rightarrow> string option" where
  "upper_code_point cp =
     (case cp of
        [c] \<Rightarrow> if (of_char c :: nat) < 128 then Some [ascii_upper c] else None
      | _ \<Rightarrow>
          map_of
            [([CHR 0xC3, CHR 0x9F], ''SS''),
             ([CHR 0xC4, CHR 0xB1], ''I''),
             ([CHR 0xC5, CHR 0xBF], ''S''),
             ([CHR 0xEF, CHR 0xAC, CHR 0x80], ''FF''),
             ([CHR 0xEF, CHR 0xAC, CHR 0x81], ''FI''),
             ([CHR 0xEF, CHR 0xAC, CHR 0x82], ''FL''),
             ([CHR 0xEF, CHR 0xAC, CHR 0x83], ''FFI''),
             ([CHR 0xEF, CHR 0xAC, CHR 0x84], ''FFL''),
             ([CHR 0xEF, CHR 0xAC, CHR 0x85], ''ST''),
             ([CHR 0xEF, CHR 0xAC, CHR 0x86], ''ST'')] cp)"

fun upper_code_points :: "string list \<Rightarrow> string option" where
  "upper_code_points [] = Some []"
| "upper_code_points (cp # cps) =
     (case upper_code_point cp of
        None \<Rightarrow> None
      | Some u \<Rightarrow> (case upper_code_points cps of None \<Rightarrow> None | Some us \<Rightarrow> Some (u @ us)))"

definition upper :: "string \<Rightarrow> string option" where
  "upper s = upper_code_points (utf8_chars s)"

section \<open>Path normalizer\<close>

text \<open>
  \<^verbatim>\<open>
  def normalize_file_path(self, path: str) -> str:
      try:
          result = path
          if path.split("/")[2] == "package":
              result = "/".join(path.split("/")[2:])
          return result
      except:
          return path
  \<close>
  The body of the \<^verbatim>\<open>try\<close> is \<open>normalize_file_path_try\<close>: a value that is not a string has no
  \<^verbatim>\<open>split\<close> (AttributeError), and index 2 of a shorter list raises IndexError. The bare
  \<^verbatim>\<open>except\<close> turns every error into the original argument.
\<close>

definition normalize_file_path_try :: "json \<Rightarrow> error + json" where
  "normalize_file_path_try path =
     (case path of
        JStr p \<Rightarrow>
          (let parts = split_on CHR ''/'' p in
           if length parts \<le> 2 then Inl IndexError
           else if parts ! 2 = ''package''
             then Inr (JStr (join_with ''/'' (drop 2 parts)))
             else Inr path)
      | _ \<Rightarrow> Inl AttributeError)"

definition normalize_file_path :: "json \<Rightarrow> json" where
  "normalize_file_path path =
     (case normalize_file_path_try path of Inl e \<Rightarrow> path | Inr result \<Rightarrow> result)"

section \<open>Title normalizer\<close>

text \<open>
  \<^verbatim>\<open>
  def normalize_title(self, title: str) -> str:
      norm = {
          r"^Bracket object notation with user input is present.*": "Bracket object notation",
          r"^Object injection via bracket notation.*": "Object injection",
          r"^`ref` usage found.*": "Use of `ref`",
      }
      for regex, replacement in norm.items():
          if re.match(regex, title, re.IGNORECASE):
              return replacement
      return title
  \<close>
  \<open>re_match_ignorecase\<close> is \<^verbatim>\<open>re.match(regex, title, re.IGNORECASE)\<close> for the patterns of this
  shape: an optional \<^verbatim>\<open>^\<close>, literal ASCII characters, an optional final \<^verbatim>\<open>.*\<close>. \<^verbatim>\<open>re.match\<close>
  anchors at the start of the title and need not reach its end, and \<^verbatim>\<open>.*\<close> also matches the
  empty string, so such a pattern matches exactly the titles that start with its literal text,
  letter case ignored.

  Pattern and title are strings, so the case of a letter is ignored by the rules of Unicode: a
  letter of the pattern matches its two ASCII cases and the code points outside ASCII that have
  the same lower case or are case-equivalent to it. For the ASCII letters these are four:
  U+0130 and U+0131 match \<^verbatim>\<open>i\<close>, U+017F matches \<^verbatim>\<open>s\<close>, and U+212A matches \<^verbatim>\<open>k\<close>. A character
  of the pattern that is not a letter matches itself only.
\<close>

definition ignorecase_variants :: "char \<Rightarrow> string list" where
  "ignorecase_variants c =
     [[ascii_lower c], [ascii_upper c]] @
     (if ascii_lower c = CHR ''i'' then [[CHR 0xC4, CHR 0xB0], [CHR 0xC4, CHR 0xB1]]
      else if ascii_lower c = CHR ''s'' then [[CHR 0xC5, CHR 0xBF]]
      else if ascii_lower c = CHR ''k'' then [[CHR 0xE2, CHR 0x84, CHR 0xAA]]
      else [])"

definition re_literal :: "string \<Rightarrow> string" where
  "re_literal regex =
     (let r = (case regex of c # cs \<Rightarrow> if c = CHR ''^'' then cs else regex | [] \<Rightarrow> regex)
      in if endswith r ''.*'' then take (length r - 2) r else r)"

definition re_match_ignorecase :: "string \<Rightarrow> string \<Rightarrow> bool" where
  "re_match_ignorecase regex title =
     (let lit = re_literal regex;
          code_points = utf8_chars title
      in length lit \<le> length code_points \<and>
         list_all2 (\<lambda>c cp. cp \<in> set (ignorecase_variants c)) lit
           (take (length lit) code_points))"

definition norm :: "(string \<times> string) list" where
  "norm =
     [(''^Bracket object notation with user input is present.*'', ''Bracket object notation''),
      (''^Object injection via bracket notation.*'', ''Object injection''),
      (''^`ref` usage found.*'', ''Use of `ref`'')]"

fun normalize_title_loop :: "(string \<times> string) list \<Rightarrow> string \<Rightarrow> string" where
  "normalize_title_loop [] title = title"
| "normalize_title_loop ((regex, replacement) # rest) title =
     (if re_match_ignorecase regex title then replacement
      else normalize_title_loop rest title)"

definition normalize_title :: "string \<Rightarrow> string" where
  "normalize_title title = normalize_title_loop norm title"

section \<open>Source file resolver\<close>

record File =
  file_id :: nat
  path :: string

text \<open>
  A project version owns its files; \<open>files\<close> is \<^verbatim>\<open>project_version.files\<close> in the order in
  which the store returns them. \<^verbatim>\<open>filter(path__endswith=...)\<close> keeps that order.
\<close>

record ProjectVersion =
  pv_id :: nat
  files :: "File list"

text \<open>
  \<^verbatim>\<open>
  possible_files = project_version.files.filter(path__endswith=os.path.basename(file_path))
  if not possible_files:
      return None
  if len(possible_files) == 1:
      return possible_files.first()
  file_path = file_path.strip(os.path.sep)
  parts = file_path.split(os.path.sep)
  best_option = None
  for i in range(len(parts) - 1, -1, -1):
      target = os.path.sep + os.path.sep.join(parts[i:])
      for possible_file in possible_files:
          if possible_file.path.endswith(target):
              best_option = possible_file
              break
  return best_option
  \<close>
\<close>

definition possible_files :: "ProjectVersion \<Rightarrow> string \<Rightarrow> File list" where
  "possible_files pv file_path = filter (\<lambda>f. endswith (path f) (basename file_path)) (files pv)"

definition target :: "string list \<Rightarrow> nat \<Rightarrow> string" where
  "target parts i = [sep] @ join_with [sep] (drop i parts)"

text \<open>The inner loop: the first candidate that ends with the target, if there is one.\<close>

definition first_hit :: "File list \<Rightarrow> string \<Rightarrow> File option" where
  "first_hit cands t = find (\<lambda>f. endswith (path f) t) cands"

text \<open>One round of the outer loop, at index \<open>i\<close>.\<close>

definition suffix_step :: "File list \<Rightarrow> string list \<Rightarrow> nat \<Rightarrow> File option \<Rightarrow> File option" where
  "suffix_step cands parts i best_option =
     (case first_hit cands (target parts i) of Some f \<Rightarrow> Some f | None \<Rightarrow> best_option)"

text \<open>The outer loop runs \<open>i\<close> from \<open>len(parts) - 1\<close> down to \<open>0\<close>.\<close>

definition suffix_loop :: "File list \<Rightarrow> string list \<Rightarrow> File option" where
  "suffix_loop cands parts = fold (suffix_step cands parts) (rev [0..<length parts]) None"

definition get_most_likely_source :: "ProjectVersion \<Rightarrow> string \<Rightarrow> File option" where
  "get_most_likely_source pv file_path =
     (let cands = possible_files pv file_path in
      if cands = [] then None
      else if length cands = 1 then Some (hd cands)
      else suffix_loop cands (split_on sep (strip_char sep file_path)))"

section \<open>Reading the document\<close>

text \<open>Truth value of a Python value, as \<^verbatim>\<open>a and b\<close> tests it.\<close>

definition py_truthy :: "json \<Rightarrow> bool" where
  "py_truthy v =
     (case v of JNull \<Rightarrow> False | JBool b \<Rightarrow> b | JInt n \<Rightarrow> n \<noteq> 0 | JStr s \<Rightarrow> s \<noteq> []
      | JList xs \<Rightarrow> xs \<noteq> [] | JDict kvs \<Rightarrow> kvs \<noteq> [])"

text \<open>Lists and dictionaries cannot be dictionary keys.\<close>

definition py_hashable :: "json \<Rightarrow> bool" where
  "py_hashable v = (case v of JList xs \<Rightarrow> False | JDict kvs \<Rightarrow> False | _ \<Rightarrow> True)"

text \<open>
  \<^verbatim>\<open>for x in v\<close>: a list gives its elements, a string its code points, a dictionary its keys;
  \<open>None\<close>, booleans and integers are not iterable.
\<close>

definition py_iter :: "json \<Rightarrow> error + json list" where
  "py_iter v =
     (case v of JList xs \<Rightarrow> Inr xs | JStr s \<Rightarrow> Inr (map JStr (utf8_chars s))
      | JDict kvs \<Rightarrow> Inr (map (\<lambda>(k, x). JStr k) kvs) | _ \<Rightarrow> Inl TypeError)"

text \<open>\<^verbatim>\<open>d.get(key, default)\<close> on a dictionary, and on any value (only dictionaries have it).\<close>

definition dict_get :: "(string \<times> json) list \<Rightarrow> string \<Rightarrow> json \<Rightarrow> json" where
  "dict_get kvs key dflt = (case map_of kvs key of None \<Rightarrow> dflt | Some v \<Rightarrow> v)"

definition py_get :: "json \<Rightarrow> string \<Rightarrow> json \<Rightarrow> error + json" where
  "py_get obj key dflt =
     (case obj of JDict kvs \<Rightarrow> Inr (dict_get kvs key dflt) | _ \<Rightarrow> Inl AttributeError)"

text \<open>
  Modelled from the spec: \<^verbatim>\<open>get_complex\<close> of \<^verbatim>\<open>triage.util.general\<close> is imported by the
  importer and is not among the sources. The importer calls it as
  \<^verbatim>\<open>get_complex(obj, "a.b.c")\<close> and \<^verbatim>\<open>get_complex(obj, "a.b.c", default)\<close>; the specification
  reads the fields of the document by dotted path (\<^verbatim>\<open>tool.driver.name\<close>, \<^verbatim>\<open>message.text\<close>) and
  calls the parsing tolerant of optional fields. It is a lookup along the dotted path through
  nested dictionaries that gives the default as soon as a step is not there. The default of
  a call that passes none is not known: it is the field \<open>get_complex_default\<close> of the
  collaborators below, and every theorem holds for each value of it.
\<close>

fun walk :: "json \<Rightarrow> string list \<Rightarrow> json option" where
  "walk v [] = Some v"
| "walk (JDict kvs) (k # ks) = (case map_of kvs k of None \<Rightarrow> None | Some v \<Rightarrow> walk v ks)"
| "walk v (k # ks) = None"

definition get_complex :: "json \<Rightarrow> string \<Rightarrow> json \<Rightarrow> json" where
  "get_complex obj key default_value =
     (case walk obj (split_on CHR ''.'' key) of None \<Rightarrow> default_value | Some v \<Rightarrow> v)"

section \<open>The store\<close>

text \<open>
  Modelled from the spec: the model classes (\<^verbatim>\<open>triage.models\<close>) are not among the sources. A
  row carries the fields the importer assigns, and an enumeration has the members the importer
  names. The specification gives a finding a raw title, a reference to its file, to its tool and
  to its project version, and a \<^verbatim>\<open>file_line\<close> that is an optional integer. A reference holds
  the row it points to; the store compares references by the identifier of the row.

  What the sources and the specification leave open is a parameter, a field of \<open>collaborators\<close>,
  and every theorem holds for each value of it:
  \<^item> the severity levels and their parser \<^verbatim>\<open>Finding.SeverityLevel.parse\<close>, of which the
    specification says only that it never raises;
  \<^item> \<open>file_line_prep\<close>, the conversion of the \<^verbatim>\<open>startLine\<close> of the document into the integer
    column \<^verbatim>\<open>file_line\<close>: it gives the integer, or nothing for an empty column, or the
    exception with which the store refuses a value that is no number;
  \<^item> \<open>str_title\<close>, which is \<^verbatim>\<open>str.title()\<close> of Python: it follows the character database of
    Unicode and is needed for the name of an assertion only.
\<close>

type_synonym user = nat

datatype ToolType = STATIC_ANALYSIS

datatype WorkItemState = NEW

datatype ConfidenceLevel = CONFIDENCE_NOT_SPECIFIED

record Tool =
  tool_name :: json
  tool_version :: json
  tool_created_by :: user
  tool_updated_by :: user
  tool_type :: ToolType

record 'sev Finding =
  title :: string
  normalized_title :: string
  state :: WorkItemState
  finding_file :: File
  tool :: Tool
  project_version :: ProjectVersion
  file_line :: "int option"
  severity_level :: 'sev
  analyst_severity_level :: 'sev
  confidence :: ConfidenceLevel
  created_by :: user
  updated_by :: user

record AssertionsPerPackage =
  package_uuid :: json
  package_name :: json
  total_assertions :: nat

record Assertion =
  assertion_uuid :: json
  assertion_name :: string
  assertions_per_package :: AssertionsPerPackage

record 'sev store =
  users :: "user list"
  tools :: "Tool list"
  findings :: "'sev Finding list"
  packages :: "AssertionsPerPackage list"
  assertions :: "Assertion list"

record 'sev collaborators =
  get_complex_default :: json
  severity_parse :: "json \<Rightarrow> 'sev"
  severity_not_specified :: 'sev
  file_line_prep :: "json \<Rightarrow> error + int option"
  str_title :: "string \<Rightarrow> string"

text \<open>
  An instance of the parameters, for the examples: the empty string as default, one severity
  level, a column that takes integers, booleans and the empty value and refuses every other
  value, and a \<^verbatim>\<open>title()\<close> that changes nothing.
\<close>

definition example_collaborators :: "unit collaborators" where
  "example_collaborators =
     \<lparr>get_complex_default = JStr [],
      severity_parse = (\<lambda>level. ()),
      severity_not_specified = (),
      file_line_prep =
        (\<lambda>v. case v of
                JNull \<Rightarrow> Inr None
              | JInt n \<Rightarrow> Inr (Some n)
              | JBool b \<Rightarrow> Inr (Some (if b then 1 else 0))
              | JStr s \<Rightarrow> Inl (ValueError ''expected a number'')
              | _ \<Rightarrow> Inl TypeError),
      str_title = (\<lambda>s. s)\<rparr>"

text \<open>\<^verbatim>\<open>get_complex(obj, key)\<close>, with no default passed.\<close>

definition get_complex0 :: "'sev collaborators \<Rightarrow> json \<Rightarrow> string \<Rightarrow> json" where
  "get_complex0 ext obj key = get_complex obj key (get_complex_default ext)"

text \<open>\<^verbatim>\<open>get_user_model().objects.get(id=1)\<close> when no user is given.\<close>

definition resolve_user :: "user option \<Rightarrow> 'sev store \<Rightarrow> error + user" where
  "resolve_user user d =
     (case user of Some u \<Rightarrow> Inr u
      | None \<Rightarrow> if 1 \<in> set (users d) then Inr 1 else Inl DoesNotExist)"

text \<open>
  \<^verbatim>\<open>Tool.objects.get_or_create(name=..., version=..., defaults={...})[0]\<close>. A tool is identified
  by its name and version, so at most one row matches.
\<close>

definition tool_get_or_create :: "json \<Rightarrow> json \<Rightarrow> user \<Rightarrow> 'sev store \<Rightarrow> Tool \<times> 'sev store" where
  "tool_get_or_create name version user d =
     (case find (\<lambda>t. tool_name t = name \<and> tool_version t = version) (tools d) of
        Some t \<Rightarrow> (t, d)
      | None \<Rightarrow>
          (let t = \<lparr>tool_name = name, tool_version = version, tool_created_by = user,
                    tool_updated_by = user, tool_type = STATIC_ANALYSIS\<rparr>
           in (t, d\<lparr>tools := tools d @ [t]\<rparr>)))"

text \<open>
  \<^verbatim>\<open>Finding.objects.filter(title=..., file=..., file_line=..., project_version=...).exists()\<close>
  and \<^verbatim>\<open>finding.save()\<close>. The filter is given the title as a string and the line as the
  column holds it, after \<open>file_line_prep\<close>; it compares the file and the project version by
  their identifiers. A save appends the row; the limits that a database sets on a column
  (the length of a text, the range of an integer) are outside the model.
\<close>

definition finding_exists ::
    "string \<Rightarrow> File \<Rightarrow> int option \<Rightarrow> ProjectVersion \<Rightarrow> 'sev store \<Rightarrow> bool" where
  "finding_exists t f l pv d =
     (\<exists>x \<in> set (findings d).
        title x = t \<and> file_id (finding_file x) = file_id f \<and> file_line x = l \<and>
        pv_id (project_version x) = pv_id pv)"

definition finding_save :: "'sev Finding \<Rightarrow> 'sev store \<Rightarrow> 'sev store" where
  "finding_save x d = d\<lparr>findings := findings d @ [x]\<rparr>"

section \<open>Assertion side channel\<close>

text \<open>
  \<^verbatim>\<open>
  def normalize_assertion_name(self, name: str) -> str:
      parts = name.split(".")
      last_part = parts[-1]
      formatted_name = last_part.replace("_", " ").title()
      return formatted_name
  \<close>
  A name that is not a string has no \<^verbatim>\<open>split\<close>. \<^verbatim>\<open>replace("_", " ")\<close> exchanges single
  characters, and \<^verbatim>\<open>title()\<close> is the parameter \<open>str_title\<close>.
\<close>

definition normalize_assertion_name :: "'sev collaborators \<Rightarrow> json \<Rightarrow> error + string" where
  "normalize_assertion_name ext name =
     (case name of
        JStr n \<Rightarrow>
          (let parts = split_on CHR ''.'' n;
               last_part = last parts
           in Inr (str_title ext (map (\<lambda>c. if c = CHR ''_'' then CHR '' '' else c) last_part)))
      | _ \<Rightarrow> Inl AttributeError)"

text \<open>
  \<^verbatim>\<open>len(v)\<close> and \<^verbatim>\<open>v[0]\<close>; a string counts and gives its code points, and the keys of a parsed
  dictionary are strings, so \<open>0\<close> is no key.
\<close>

definition py_len :: "json \<Rightarrow> error + nat" where
  "py_len v =
     (case v of JStr s \<Rightarrow> Inr (length (utf8_chars s)) | JList xs \<Rightarrow> Inr (length xs)
      | JDict kvs \<Rightarrow> Inr (length kvs) | _ \<Rightarrow> Inl TypeError)"

definition py_first :: "json \<Rightarrow> error + json" where
  "py_first v =
     (case v of
        JList xs \<Rightarrow> (case xs of [] \<Rightarrow> Inl IndexError | x # rest \<Rightarrow> Inr x)
      | JStr s \<Rightarrow> (case utf8_chars s of [] \<Rightarrow> Inl IndexError | c # rest \<Rightarrow> Inr (JStr c))
      | JDict kvs \<Rightarrow> Inl KeyError
      | _ \<Rightarrow> Inl TypeError)"

text \<open>\<^verbatim>\<open>obj.get(k1).get(k2)\<close>.\<close>

definition py_get2 :: "json \<Rightarrow> string \<Rightarrow> string \<Rightarrow> error + json" where
  "py_get2 obj k1 k2 =
     (case py_get obj k1 JNull of Inl e \<Rightarrow> Inl e | Inr inner \<Rightarrow> py_get inner k2 JNull)"

text \<open>
  \<^verbatim>\<open>
  def add_assertion(self, assertion_data) -> bool:
      try:
          total_assertions = len(assertion_data)
          package_uuid = assertion_data[0].get("subject").get("uuid")
          package_name = assertion_data[0].get("subject").get("identifier")
          package_assertions = AssertionsPerPackage()
          ...
          package_assertions.save()
          for assertion_found in assertion_data:
              assertion = Assertion()
              assertion.assertion_uuid = assertion_found.get("uuid")
              assertion.assertion_name = self.normalize_assertion_name(
                  assertion_found.get("generator").get("name"))
              assertion.assertions_per_package = package_assertions
              assertion.save()
          return True
      except Exception as e:
          return False
  \<close>
  The rows saved before an exception stay in the store.
\<close>

fun add_assertion_rows ::
    "'sev collaborators \<Rightarrow> AssertionsPerPackage \<Rightarrow> json list \<Rightarrow> 'sev store \<Rightarrow>
     bool \<times> 'sev store" where
  "add_assertion_rows ext package_assertions [] d = (True, d)"
| "add_assertion_rows ext package_assertions (assertion_found # rest) d =
     (case py_get assertion_found ''uuid'' JNull of
        Inl e \<Rightarrow> (False, d)
      | Inr uuid \<Rightarrow>
          (case py_get2 assertion_found ''generator'' ''name'' of
             Inl e \<Rightarrow> (False, d)
           | Inr name \<Rightarrow>
               (case normalize_assertion_name ext name of
                  Inl e \<Rightarrow> (False, d)
                | Inr formatted_name \<Rightarrow>
                    add_assertion_rows ext package_assertions rest
                      (d\<lparr>assertions := assertions d @
                          [\<lparr>assertion_uuid = uuid, assertion_name = formatted_name,
                            assertions_per_package = package_assertions\<rparr>]\<rparr>))))"

definition add_assertion ::
    "'sev collaborators \<Rightarrow> json \<Rightarrow> 'sev store \<Rightarrow> bool \<times> 'sev store" where
  "add_assertion ext assertion_data d =
     (case py_len assertion_data of
        Inl e \<Rightarrow> (False, d)
      | Inr n \<Rightarrow>
          (case py_first assertion_data of
             Inl e \<Rightarrow> (False, d)
           | Inr first \<Rightarrow>
               (case py_get2 first ''subject'' ''uuid'' of
                  Inl e \<Rightarrow> (False, d)
                | Inr uuid \<Rightarrow>
                    (case py_get2 first ''subject'' ''identifier'' of
                       Inl e \<Rightarrow> (False, d)
                     | Inr name \<Rightarrow>
                         (let package_assertions =
                                \<lparr>package_uuid = uuid, package_name = name,
                                 total_assertions = n\<rparr>;
                              d1 = d\<lparr>packages := packages d @ [package_assertions]\<rparr>
                          in case py_iter assertion_data of
                               Inl e \<Rightarrow> (False, d1)
                             | Inr rows \<Rightarrow>
                                 add_assertion_rows ext package_assertions rows d1)))))"

section \<open>SARIF import\<close>

text \<open>
  The state of one call of \<^verbatim>\<open>import_sarif_file\<close>: the store, the set \<^verbatim>\<open>processed\<close> and the
  counter \<^verbatim>\<open>num_imported\<close>. A key of \<^verbatim>\<open>processed\<close> is the SHA-256 digest of the JSON text of
  \<^verbatim>\<open>{"title": ..., "path": ..., "line_number": ...}\<close>; the text determines the three values,
  and the digest is taken as free of collisions, so the key is the triple itself.
\<close>

type_synonym dedup_key = "json \<times> json \<times> json"

record 'sev import_state =
  store :: "'sev store"
  processed :: "dedup_key set"
  num_imported :: nat

text \<open>
  A step of a loop gives the error it raised, if any, and the state it reached; the rows
  written before an exception stay written. \<open>for_each\<close> is a \<^verbatim>\<open>for\<close> loop that an exception
  leaves.
\<close>

fun for_each :: "('a \<Rightarrow> 's \<Rightarrow> error option \<times> 's) \<Rightarrow> 'a list \<Rightarrow> 's \<Rightarrow> error option \<times> 's" where
  "for_each body [] st = (None, st)"
| "for_each body (x # xs) st =
     (case body x st of
        (Some e, st') \<Rightarrow> (Some e, st')
      | (None, st') \<Rightarrow> for_each body xs st')"

text \<open>
  \<^verbatim>\<open>str(src_root).upper() not in ["%SRCROOT%", "SRCROOT"]\<close>, negated. The text of a value that
  is not a string is \<^verbatim>\<open>None\<close>, \<^verbatim>\<open>True\<close>, \<^verbatim>\<open>False\<close>, a decimal number, or starts with a bracket
  or a brace: its upper case is never one of the two markers.
\<close>

definition in_src_root :: "json \<Rightarrow> bool" where
  "in_src_root src_root =
     (case src_root of
        JStr s \<Rightarrow> upper s \<in> set [Some ''%SRCROOT%'', Some ''SRCROOT'']
      | _ \<Rightarrow> False)"

text \<open>
  The loop over \<^verbatim>\<open>tool.driver.rules\<close> fills \<^verbatim>\<open>rule_description_map\<close>, which nothing reads;
  what is left of it is the exception of a rule id that cannot be a key.
  \<^verbatim>\<open>
  for rule in get_complex(run, "tool.driver.rules"):
      rule_id = get_complex(rule, "id")
      rule_description = get_complex(rule, "shortDescription.text")
      if rule_id and rule_description:
          rule_description_map[rule_id] = rule_description
  \<close>
\<close>

definition load_rule :: "'sev collaborators \<Rightarrow> json \<Rightarrow> 's \<Rightarrow> error option \<times> 's" where
  "load_rule ext rule st =
     (let rule_id = get_complex0 ext rule ''id'';
          rule_description = get_complex0 ext rule ''shortDescription.text''
      in if py_truthy rule_id \<and> py_truthy rule_description \<and> \<not> py_hashable rule_id
         then (Some TypeError, st) else (None, st))"

text \<open>
  The body of \<^verbatim>\<open>for location in get_complex(result, "locations")\<close> (lines 101 to 169 of the
  importer). \<^verbatim>\<open>os.path.basename\<close> raises TypeError for a path that is not a string, and
  \<^verbatim>\<open>re.match\<close> for a title that is not a string. The assignments to the new finding convert
  nothing; the filter of the existence check is the first to convert the line to the column
  \<^verbatim>\<open>file_line\<close>, and it raises when the store refuses the value: nothing is saved for this
  location then, and the rows written before stay. The statement \<^verbatim>\<open>num_imported += 1\<close> stands
  after the \<^verbatim>\<open>if key not in processed\<close> block, in the loop body: it is reached when the block
  is left without \<^verbatim>\<open>continue\<close>, and when the key is in \<^verbatim>\<open>processed\<close> already.
\<close>

definition process_location ::
    "'sev collaborators \<Rightarrow> ProjectVersion \<Rightarrow> user \<Rightarrow> Tool \<Rightarrow> json \<Rightarrow> json \<Rightarrow> json \<Rightarrow>
     'sev import_state \<Rightarrow> error option \<times> 'sev import_state" where
  "process_location ext pv user tool_row message level location st =
     (let artifact_location = get_complex0 ext location ''physicalLocation.artifactLocation'';
          src_root = get_complex artifact_location ''uriBaseId'' (JStr ''%SRCROOT%'')
      in if \<not> in_src_root src_root then (None, st)
         else
           (let uri = get_complex0 ext artifact_location ''uri'';
                key = (message, uri,
                       get_complex0 ext location ''physicalLocation.region.startLine'')
            in if key \<notin> processed st then
                 (let st1 = st\<lparr>processed := insert key (processed st)\<rparr>;
                      file_path = normalize_file_path (get_complex0 ext artifact_location ''uri'')
                  in case file_path of
                       JStr p \<Rightarrow>
                         (case get_most_likely_source pv p of
                            None \<Rightarrow> (None, st1)
                          | Some f \<Rightarrow>
                              (case message of
                                 JStr m \<Rightarrow>
                                   (case file_line_prep ext
                                           (get_complex location
                                              ''physicalLocation.region.startLine'' JNull) of
                                      Inl e \<Rightarrow> (Some e, st1)
                                    | Inr line \<Rightarrow>
                                        (let finding =
                                           \<lparr>title = m,
                                            normalized_title = normalize_title m,
                                            state = NEW,
                                            finding_file = f,
                                            tool = tool_row,
                                            project_version = pv,
                                            file_line = line,
                                            severity_level = severity_parse ext level,
                                            analyst_severity_level = severity_not_specified ext,
                                            confidence = CONFIDENCE_NOT_SPECIFIED,
                                            created_by = user,
                                            updated_by = user\<rparr>
                                         in if finding_exists (title finding)
                                                 (finding_file finding) (file_line finding)
                                                 (project_version finding) (store st1)
                                            then (None, st1)
                                            else (None,
                                                  st1\<lparr>store := finding_save finding (store st1),
                                                      num_imported := num_imported st1 + 1\<rparr>)))
                               | _ \<Rightarrow> (Some TypeError, st1)))
                     | _ \<Rightarrow> (Some TypeError, st1))
               else (None, st\<lparr>num_imported := num_imported st + 1\<rparr>)))"

text \<open>The body of \<^verbatim>\<open>for result in run.get("results", [])\<close>.\<close>

definition process_result ::
    "'sev collaborators \<Rightarrow> ProjectVersion \<Rightarrow> user \<Rightarrow> Tool \<Rightarrow> json \<Rightarrow>
     'sev import_state \<Rightarrow> error option \<times> 'sev import_state" where
  "process_result ext pv user tool_row result st =
     (case py_get result ''ruleId'' JNull of
        Inl e \<Rightarrow> (Some e, st)
      | Inr rule_id \<Rightarrow>
          (let message = get_complex0 ext result ''message.text'';
               level = get_complex0 ext result ''level''
           in case py_iter (get_complex0 ext result ''locations'') of
                Inl e \<Rightarrow> (Some e, st)
              | Inr locations \<Rightarrow>
                  for_each (process_location ext pv user tool_row message level) locations st))"

text \<open>The body of \<^verbatim>\<open>for run in sarif.get("runs", [])\<close>.\<close>

definition process_run ::
    "'sev collaborators \<Rightarrow> ProjectVersion \<Rightarrow> user \<Rightarrow> json \<Rightarrow>
     'sev import_state \<Rightarrow> error option \<times> 'sev import_state" where
  "process_run ext pv user run st =
     (let tool_name = get_complex0 ext run ''tool.driver.name'';
          tool_version = get_complex0 ext run ''tool.driver.version'';
          (tool_row, d1) = tool_get_or_create tool_name tool_version user (store st);
          st1 = st\<lparr>store := d1\<rparr>
      in case py_iter (get_complex0 ext run ''tool.driver.rules'') of
           Inl e \<Rightarrow> (Some e, st1)
         | Inr rules \<Rightarrow>
             (case for_each (load_rule ext) rules st1 of
                (Some e, st2) \<Rightarrow> (Some e, st2)
              | (None, st2) \<Rightarrow>
                  (case py_get run ''results'' (JList []) of
                     Inl e \<Rightarrow> (Some e, st2)
                   | Inr results \<Rightarrow>
                       (case py_iter results of
                          Inl e \<Rightarrow> (Some e, st2)
                        | Inr rs \<Rightarrow> for_each (process_result ext pv user tool_row) rs st2))))"

text \<open>
  \<^verbatim>\<open>import_sarif_file(self, sarif, project_version, user)\<close>: the outcome is the exception
  raised or the boolean returned, together with the store the call leaves.
\<close>

definition import_sarif_file ::
    "'sev collaborators \<Rightarrow> json \<Rightarrow> ProjectVersion option \<Rightarrow> user option \<Rightarrow> 'sev store \<Rightarrow>
     (error + bool) \<times> 'sev store" where
  "import_sarif_file ext sarif pv_arg user d =
     (case sarif of
        JNull \<Rightarrow> (Inl (ValueError ''The sarif content must not be None.''), d)
      | JDict kvs \<Rightarrow>
          if dict_get kvs ''version'' JNull \<noteq> JStr ''2.1.0''
          then (Inl (ValueError ''Only SARIF version 2.1.0 is supported.''), d)
          else
            (case pv_arg of
               None \<Rightarrow> (Inl (ValueError ''The project version must not be None.''), d)
             | Some pv \<Rightarrow>
                 (case resolve_user user d of
                    Inl e \<Rightarrow> (Inl e, d)
                  | Inr u \<Rightarrow>
                      (let assertion_data = dict_get kvs ''assertion_data'' JNull;
                           d1 = (if assertion_data \<noteq> JNull
                                 then snd (add_assertion ext assertion_data d) else d)
                       in case py_iter (dict_get kvs ''runs'' (JList [])) of
                            Inl e \<Rightarrow> (Inl e, d1)
                          | Inr runs \<Rightarrow>
                              (case for_each (process_run ext pv u) runs
                                      \<lparr>store = d1, processed = {}, num_imported = 0\<rparr> of
                                 (Some e, st) \<Rightarrow> (Inl e, store st)
                               | (None, st) \<Rightarrow> (Inr (num_imported st \<noteq> 0), store st)))))
      | _ \<Rightarrow> (Inl (ValueError ''The sarif content must be a dict.''), d))"

section \<open>Properties of the string primitives\<close>

lemma split_on_nonempty: "split_on c s \<noteq> []"
  by (induction s) (auto split: list.splits)

lemma split_on_no_sep: "c \<notin> set s \<Longrightarrow> split_on c s = [s]"
  by (induction s) auto

lemma last_split_on_Cons:
  "last (split_on c (x # xs)) = (if c \<in> set xs \<or> x = c then last (split_on c xs) else x # xs)"
proof (cases "c \<in> set xs")
  case False
  then show ?thesis by (simp add: split_on_no_sep split_on_nonempty)
next
  case True
  then have "length (split_on c xs) \<ge> 2"
    by (induction xs) (auto split: list.splits simp: split_on_nonempty)
  then obtain w v ws where "split_on c xs = w # v # ws"
    by (cases "split_on c xs"; cases "tl (split_on c xs)") auto
  with True show ?thesis by simp
qed

lemma basename_Cons:
  "basename (x # xs) = (if sep \<in> set xs \<or> x = sep then basename xs else x # xs)"
proof -
  have *: "\<forall>y\<in>set xs. y \<noteq> sep \<Longrightarrow> takeWhile (\<lambda>x. x \<noteq> sep) (rev xs) = rev xs"
    by (simp add: takeWhile_eq_all_conv)
  show ?thesis
    unfolding basename_def by (auto simp: takeWhile_append *)
qed

text \<open>The basename is the final segment of the path.\<close>

lemma basename_last_split: "basename p = last (split_on sep p)"
proof (induction p)
  case Nil
  show ?case by (simp add: basename_def)
next
  case (Cons x xs)
  show ?case unfolding basename_Cons last_split_on_Cons using Cons by simp
qed

lemma join_with_append:
  "xs \<noteq> [] \<Longrightarrow> ys \<noteq> [] \<Longrightarrow> join_with s (xs @ ys) = join_with s xs @ s @ join_with s ys"
  by (induction s xs rule: join_with.induct) (auto simp: neq_Nil_conv)

section \<open>Properties of the path normalizer\<close>

text \<open>
  Claim C3, as the specification states it, does not hold: the split of
  \<^verbatim>\<open>"/a/b/package/src/x.js"\<close> starts with the empty segment before the leading slash, so the
  segment at index 2 is \<^verbatim>\<open>"b"\<close> and the path is returned as it is.
\<close>

theorem normalize_file_path_leading_slash:
  "normalize_file_path (JStr ''/a/b/package/src/x.js'') \<noteq> JStr ''package/src/x.js''"
  by (simp add: normalize_file_path_def normalize_file_path_try_def)

text \<open>
  Claim C3, amended: a string whose split on the slash has the segment \<^verbatim>\<open>"package"\<close> at
  index 2 is mapped to the join of the segments from index 2 onward, and every other string to
  itself. So \<^verbatim>\<open>"a/b/package/src/x.js"\<close> is mapped to \<^verbatim>\<open>"package/src/x.js"\<close>, and
  \<^verbatim>\<open>"/a/b/package/src/x.js"\<close>, whose segment at index 2 is \<^verbatim>\<open>"b"\<close>, to itself.
\<close>

theorem normalize_file_path_package:
  "normalize_file_path (JStr p) =
     (if 3 \<le> length (split_on CHR ''/'' p) \<and> split_on CHR ''/'' p ! 2 = ''package''
      then JStr (join_with ''/'' (drop 2 (split_on CHR ''/'' p))) else JStr p)"
  by (simp add: normalize_file_path_def normalize_file_path_try_def Let_def)

theorem normalize_file_path_package_witness:
  "normalize_file_path (JStr ''a/b/package/src/x.js'') = JStr ''package/src/x.js'' \<and>
   normalize_file_path (JStr ''/a/b/package/src/x.js'') = JStr ''/a/b/package/src/x.js''"
  using normalize_file_path_package [of "''a/b/package/src/x.js''"]
    normalize_file_path_package [of "''/a/b/package/src/x.js''"]
  by simp

text \<open>
  Claim C6: the path normalizer never raises. Its result is a value for every argument; when
  the manipulation raises, the result is the argument. The manipulation raises IndexError for
  a string with fewer than three segments, and AttributeError for a value that is not a
  string.
\<close>

theorem normalize_file_path_never_raises:
  "(\<forall>e. normalize_file_path_try p = Inl e \<longrightarrow> normalize_file_path p = p) \<and>
   (length (split_on CHR ''/'' s) < 3 \<longrightarrow>
      normalize_file_path_try (JStr s) = Inl IndexError \<and>
      normalize_file_path (JStr s) = JStr s) \<and>
   ((\<forall>t. p \<noteq> JStr t) \<longrightarrow>
      normalize_file_path_try p = Inl AttributeError \<and> normalize_file_path p = p)"
  by (cases p) (auto simp: normalize_file_path_def normalize_file_path_try_def Let_def)

theorem normalize_file_path_never_raises_witness:
  "normalize_file_path_try JNull = Inl AttributeError \<and>
   normalize_file_path JNull = JNull \<and>
   length (split_on CHR ''/'' ''a/b'') < 3 \<and>
   normalize_file_path_try (JStr ''a/b'') = Inl IndexError \<and>
   normalize_file_path (JStr ''a/b'') = JStr ''a/b''"
  using normalize_file_path_never_raises [of JNull "''a/b''"]
  by simp

section \<open>Properties of the title normalizer\<close>

lemma normalize_title_loop_first:
  "\<forall>(r, x) \<in> set ps. \<not> re_match_ignorecase r t \<Longrightarrow> re_match_ignorecase rx t \<Longrightarrow>
   normalize_title_loop (ps @ (rx, rep) # qs) t = rep"
  by (induction ps) auto

lemma normalize_title_loop_none:
  "\<forall>(r, x) \<in> set ps. \<not> re_match_ignorecase r t \<Longrightarrow> normalize_title_loop ps t = t"
  by (induction ps) auto

lemma re_literal_norm:
  "re_literal ''^Bracket object notation with user input is present.*'' =
     ''Bracket object notation with user input is present''"
  "re_literal ''^Object injection via bracket notation.*'' =
     ''Object injection via bracket notation''"
  by (simp_all add: re_literal_def endswith_def)

text \<open>A title that matches begins with a code point that the first letter of the pattern matches.\<close>

lemma re_match_first_code_point:
  assumes "re_match_ignorecase regex t" and "re_literal regex = c # lit"
  shows "\<exists>cp cps. utf8_chars t = cp # cps \<and> cp \<in> set (ignorecase_variants c)"
proof (cases "utf8_chars t")
  case Nil
  with assms show ?thesis by (simp add: re_match_ignorecase_def)
next
  case (Cons cp cps)
  with assms show ?thesis by (simp add: re_match_ignorecase_def)
qed

lemma ignorecase_variants_first:
  "ignorecase_variants CHR ''O'' = [''o'', ''O'']"
  "ignorecase_variants CHR ''B'' = [''b'', ''B'']"
  by code_simp+

lemma object_injection_not_bracket:
  assumes "re_match_ignorecase ''^Object injection via bracket notation.*'' t"
  shows "\<not> re_match_ignorecase ''^Bracket object notation with user input is present.*'' t"
proof
  assume b: "re_match_ignorecase ''^Bracket object notation with user input is present.*'' t"
  from re_match_first_code_point [OF assms] obtain cp cps
    where o: "utf8_chars t = cp # cps" "cp \<in> set (ignorecase_variants CHR ''O'')"
    by (auto simp: re_literal_norm)
  from re_match_first_code_point [OF b] o(1)
  have "cp \<in> set (ignorecase_variants CHR ''B'')"
    by (auto simp: re_literal_norm)
  with o(2) show False by (auto simp: ignorecase_variants_first)
qed

text \<open>
  Claim C7: the title normalizer goes through the pattern table in its order and returns the
  replacement of the first pattern that matches, letter case ignored; a title that matches
  \<^verbatim>\<open>^Object injection via bracket notation.*\<close> becomes \<^verbatim>\<open>Object injection\<close>; a title that
  matches no pattern is returned as it is.
\<close>

theorem normalize_title_first_match:
  "(\<forall>ps rx rep qs.
      norm = ps @ (rx, rep) # qs \<and> (\<forall>(r, x) \<in> set ps. \<not> re_match_ignorecase r t) \<and>
      re_match_ignorecase rx t \<longrightarrow> normalize_title t = rep) \<and>
   (re_match_ignorecase ''^Object injection via bracket notation.*'' t \<longrightarrow>
      normalize_title t = ''Object injection'') \<and>
   ((\<forall>(r, x) \<in> set norm. \<not> re_match_ignorecase r t) \<longrightarrow> normalize_title t = t)"
proof (intro conjI allI impI)
  fix ps rx rep qs
  assume "norm = ps @ (rx, rep) # qs \<and> (\<forall>(r, x) \<in> set ps. \<not> re_match_ignorecase r t) \<and>
      re_match_ignorecase rx t"
  then have n: "norm = ps @ (rx, rep) # qs"
    and a: "\<forall>(r, x) \<in> set ps. \<not> re_match_ignorecase r t"
    and m: "re_match_ignorecase rx t"
    by blast+
  show "normalize_title t = rep"
    unfolding normalize_title_def n by (rule normalize_title_loop_first [OF a m])
next
  assume a: "re_match_ignorecase ''^Object injection via bracket notation.*'' t"
  from object_injection_not_bracket [OF a] a show "normalize_title t = ''Object injection''"
    by (simp add: normalize_title_def norm_def)
next
  assume "\<forall>(r, x) \<in> set norm. \<not> re_match_ignorecase r t"
  then show "normalize_title t = t"
    by (simp add: normalize_title_def normalize_title_loop_none)
qed

text \<open>
  The examples: a title in other letter case; a title whose \<^verbatim>\<open>k\<close> is the Kelvin sign U+212A
  and whose \<^verbatim>\<open>i\<close> is U+0130; a title of the first pattern whose \<^verbatim>\<open>s\<close> is the long s U+017F;
  a title that matches no pattern, and one that misses the second pattern by an accent
  (U+0144 for the last \<^verbatim>\<open>n\<close>).
\<close>

lemma re_match_examples:
  "re_match_ignorecase ''^Object injection via bracket notation.*''
     ''object INJECTION via Bracket Notation in handler''"
  "re_match_ignorecase ''^Object injection via bracket notation.*''
     (''Object injection via brac'' @ [CHR 0xE2, CHR 0x84, CHR 0xAA] @ ''et notat'' @
      [CHR 0xC4, CHR 0xB0] @ ''on'')"
  "re_match_ignorecase ''^Bracket object notation with user input is present.*''
     (''Bracket object notation with u'' @ [CHR 0xC5, CHR 0xBF] @ ''er input is present in x'')"
  "\<not> re_match_ignorecase ''^Bracket object notation with user input is present.*''
     ''Unsafe eval''"
  "\<not> re_match_ignorecase ''^Object injection via bracket notation.*'' ''Unsafe eval''"
  "\<not> re_match_ignorecase ''^`ref` usage found.*'' ''Unsafe eval''"
  "\<not> re_match_ignorecase ''^Bracket object notation with user input is present.*''
     (''Object injection via bracket notatio'' @ [CHR 0xC5, CHR 0x84])"
  "\<not> re_match_ignorecase ''^Object injection via bracket notation.*''
     (''Object injection via bracket notatio'' @ [CHR 0xC5, CHR 0x84])"
  "\<not> re_match_ignorecase ''^`ref` usage found.*''
     (''Object injection via bracket notatio'' @ [CHR 0xC5, CHR 0x84])"
  by code_simp+

theorem normalize_title_first_match_witness:
  "re_match_ignorecase ''^Object injection via bracket notation.*''
     ''object INJECTION via Bracket Notation in handler'' \<and>
   normalize_title ''object INJECTION via Bracket Notation in handler'' = ''Object injection'' \<and>
   normalize_title
     (''Object injection via brac'' @ [CHR 0xE2, CHR 0x84, CHR 0xAA] @ ''et notat'' @
      [CHR 0xC4, CHR 0xB0] @ ''on'') = ''Object injection'' \<and>
   normalize_title
     (''Bracket object notation with u'' @ [CHR 0xC5, CHR 0xBF] @ ''er input is present in x'') =
     ''Bracket object notation'' \<and>
   \<not> re_match_ignorecase ''^Bracket object notation with user input is present.*''
     ''Unsafe eval'' \<and>
   \<not> re_match_ignorecase ''^Object injection via bracket notation.*'' ''Unsafe eval'' \<and>
   \<not> re_match_ignorecase ''^`ref` usage found.*'' ''Unsafe eval'' \<and>
   normalize_title ''Unsafe eval'' = ''Unsafe eval'' \<and>
   normalize_title (''Object injection via bracket notatio'' @ [CHR 0xC5, CHR 0x84]) =
     ''Object injection via bracket notatio'' @ [CHR 0xC5, CHR 0x84]"
proof -
  have first: "normalize_title
     (''Bracket object notation with u'' @ [CHR 0xC5, CHR 0xBF] @ ''er input is present in x'') =
     ''Bracket object notation''"
    using normalize_title_first_match
      [of "''Bracket object notation with u'' @ [CHR 0xC5, CHR 0xBF] @
           ''er input is present in x''",
       THEN conjunct1, rule_format,
       of "[]" "''^Bracket object notation with user input is present.*''"
          "''Bracket object notation''"
          "[(''^Object injection via bracket notation.*'', ''Object injection''),
            (''^`ref` usage found.*'', ''Use of `ref`'')]"]
      re_match_examples(3)
    by (simp add: norm_def)
  show ?thesis
    using normalize_title_first_match [of "''object INJECTION via Bracket Notation in handler''"]
      normalize_title_first_match
        [of "''Object injection via brac'' @ [CHR 0xE2, CHR 0x84, CHR 0xAA] @ ''et notat'' @
             [CHR 0xC4, CHR 0xB0] @ ''on''"]
      normalize_title_first_match [of "''Unsafe eval''"]
      normalize_title_first_match
        [of "''Object injection via bracket notatio'' @ [CHR 0xC5, CHR 0x84]"]
      re_match_examples first
    by (simp add: norm_def)
qed

section \<open>Properties of the source file resolver\<close>






text \<open>A smaller index gives a longer target, which ends with the shorter ones.\<close>

lemma target_grows:
  assumes "j \<le> i" and "i < length parts"
  shows "endswith (target parts j) (target parts i)"
proof (cases "j = i")
  case True
  then show ?thesis by (simp add: endswith_def)
next
  case False
  with assms have d: "drop j parts = take (i - j) (drop j parts) @ drop i parts"
    by (metis append_take_drop_id drop_drop le_add_diff_inverse2)
  from assms False have n: "take (i - j) (drop j parts) \<noteq> []" "drop i parts \<noteq> []"
    by auto
  have "join_with [sep] (drop j parts) =
        join_with [sep] (take (i - j) (drop j parts)) @ [sep] @ join_with [sep] (drop i parts)"
    using join_with_append [OF n, of "[sep]"] d by simp
  then show ?thesis
    unfolding target_def by (simp add: endswith_def)
qed

text \<open>
  Claim C8: the candidates are the files of the project version whose path ends with the
  basename of the reported path, which is its final segment. With no candidate the resolver
  returns none; with exactly one it returns that file, whatever the longer suffixes are.
\<close>

theorem resolver_candidates:
  "possible_files pv fp = filter (\<lambda>f. endswith (path f) (last (split_on sep fp))) (files pv) \<and>
   (possible_files pv fp = [] \<longrightarrow> get_most_likely_source pv fp = None) \<and>
   (possible_files pv fp = [f] \<longrightarrow> get_most_likely_source pv fp = Some f)"
  by (simp add: possible_files_def basename_last_split get_most_likely_source_def)

theorem resolver_candidates_witness:
  "possible_files \<lparr>pv_id = 5, files = [\<lparr>file_id = 11, path = ''/repo/a/main.js''\<rparr>]\<rparr>
     ''b/index.js'' = [] \<and>
   get_most_likely_source \<lparr>pv_id = 5, files = [\<lparr>file_id = 11, path = ''/repo/a/main.js''\<rparr>]\<rparr>
     ''b/index.js'' = None \<and>
   possible_files
     \<lparr>pv_id = 5, files = [\<lparr>file_id = 11, path = ''/repo/a/main.js''\<rparr>,
                          \<lparr>file_id = 12, path = ''/repo/myindex.js''\<rparr>]\<rparr>
     ''b/index.js'' = [\<lparr>file_id = 12, path = ''/repo/myindex.js''\<rparr>] \<and>
   get_most_likely_source
     \<lparr>pv_id = 5, files = [\<lparr>file_id = 11, path = ''/repo/a/main.js''\<rparr>,
                          \<lparr>file_id = 12, path = ''/repo/myindex.js''\<rparr>]\<rparr>
     ''b/index.js'' = Some \<lparr>file_id = 12, path = ''/repo/myindex.js''\<rparr>"
  using resolver_candidates
      [of "\<lparr>pv_id = 5, files = [\<lparr>file_id = 11, path = ''/repo/a/main.js''\<rparr>]\<rparr>" "''b/index.js''"]
    resolver_candidates
      [of "\<lparr>pv_id = 5, files = [\<lparr>file_id = 11, path = ''/repo/a/main.js''\<rparr>,
                                \<lparr>file_id = 12, path = ''/repo/myindex.js''\<rparr>]\<rparr>"
          "''b/index.js''" "\<lparr>file_id = 12, path = ''/repo/myindex.js''\<rparr>"]
  by (simp add: possible_files_def basename_def sep_def endswith_def)





section \<open>Properties of the import\<close>

lemma in_src_root_default: "in_src_root (JStr ''%SRCROOT%'')"
  by code_simp

lemmas import_defs =
  import_sarif_file_def process_run_def process_result_def process_location_def
  load_rule_def get_complex0_def get_complex_def py_get_def py_iter_def dict_get_def
  resolve_user_def tool_get_or_create_def finding_exists_def finding_save_def
  normalize_file_path_def normalize_file_path_try_def get_most_likely_source_def
  possible_files_def

text \<open>
  Claim C1 fails on the code. The document has one result with the same location twice, and
  the project version has no file. At the first location the key is new and no file is found:
  \<^verbatim>\<open>continue\<close>. At the second the key is in \<^verbatim>\<open>processed\<close>, the block is passed over and
  \<^verbatim>\<open>num_imported += 1\<close> runs. The call returns \<^verbatim>\<open>True\<close> and has saved no finding.
\<close>

theorem import_true_without_finding:
  "import_sarif_file ext
     (JDict [(''version'', JStr ''2.1.0''),
             (''runs'', JList [JDict
                [(''tool'', JDict [(''driver'', JDict
                    [(''name'', JStr ''t''), (''version'', JStr ''1''), (''rules'', JList [])])]),
                 (''results'', JList [JDict
                    [(''message'', JDict [(''text'', JStr ''m'')]),
                     (''level'', JStr ''warning''),
                     (''locations'', JList
                        [JDict [(''physicalLocation'', JDict
                           [(''artifactLocation'', JDict [(''uri'', JStr ''x.js'')]),
                            (''region'', JDict [(''startLine'', JInt 3)])])],
                         JDict [(''physicalLocation'', JDict
                           [(''artifactLocation'', JDict [(''uri'', JStr ''x.js'')]),
                            (''region'', JDict [(''startLine'', JInt 3)])])]])]])]])])
     (Some \<lparr>pv_id = 5, files = []\<rparr>) (Some 7)
     \<lparr>users = [], tools = [], findings = [], packages = [], assertions = []\<rparr> =
   (Inr True,
    \<lparr>users = [],
     tools = [\<lparr>tool_name = JStr ''t'', tool_version = JStr ''1'', tool_created_by = 7,
               tool_updated_by = 7, tool_type = STATIC_ANALYSIS\<rparr>],
     findings = [], packages = [], assertions = []\<rparr>)"
  by (simp add: import_defs in_src_root_default Let_def)

text \<open>
  Claim C5, as the specification states it, does not hold: the four cases are not the only
  ones in which the import raises. A dictionary of version 2.1.0 whose \<^verbatim>\<open>runs\<close> is \<open>None\<close>,
  with a project version and a user, raises TypeError at \<^verbatim>\<open>for run in sarif.get("runs", [])\<close>.
\<close>

theorem import_raises_on_null_runs:
  "import_sarif_file example_collaborators
     (JDict [(''version'', JStr ''2.1.0''), (''runs'', JNull)])
     (Some \<lparr>pv_id = 5, files = []\<rparr>) (Some 7)
     \<lparr>users = [], tools = [], findings = [], packages = [], assertions = []\<rparr> =
   (Inl TypeError, \<lparr>users = [], tools = [], findings = [], packages = [], assertions = []\<rparr>)"
  by (simp add: import_defs Let_def)

text \<open>
  Claim C5, amended: in each of the four cases of invalid input (the document is \<open>None\<close>, is
  not a dictionary, has a \<^verbatim>\<open>version\<close> other than \<^verbatim>\<open>"2.1.0"\<close>, or the project version is
  \<open>None\<close>) the import raises ValueError, with the message of the first check that fails; it
  returns no boolean and leaves the store as it was. The converse is not claimed: these are not
  the only inputs on which the import raises.
\<close>

theorem import_rejects_invalid_input:
  "(sarif = JNull \<longrightarrow>
      import_sarif_file ext sarif pv_arg user d =
        (Inl (ValueError ''The sarif content must not be None.''), d)) \<and>
   (sarif \<noteq> JNull \<and> (\<forall>kvs. sarif \<noteq> JDict kvs) \<longrightarrow>
      import_sarif_file ext sarif pv_arg user d =
        (Inl (ValueError ''The sarif content must be a dict.''), d)) \<and>
   (\<forall>kvs. sarif = JDict kvs \<and> dict_get kvs ''version'' JNull \<noteq> JStr ''2.1.0'' \<longrightarrow>
      import_sarif_file ext sarif pv_arg user d =
        (Inl (ValueError ''Only SARIF version 2.1.0 is supported.''), d)) \<and>
   (\<forall>kvs. sarif = JDict kvs \<and> dict_get kvs ''version'' JNull = JStr ''2.1.0'' \<and>
          pv_arg = None \<longrightarrow>
      import_sarif_file ext sarif pv_arg user d =
        (Inl (ValueError ''The project version must not be None.''), d)) \<and>
   (sarif = JNull \<or> (\<forall>kvs. sarif \<noteq> JDict kvs) \<or>
    (\<exists>kvs. sarif = JDict kvs \<and> dict_get kvs ''version'' JNull \<noteq> JStr ''2.1.0'') \<or>
    pv_arg = None \<longrightarrow>
      (\<exists>msg. import_sarif_file ext sarif pv_arg user d = (Inl (ValueError msg), d)))"
  by (cases sarif; cases pv_arg) (simp_all add: import_sarif_file_def)

theorem import_rejects_invalid_input_witness:
  "import_sarif_file example_collaborators JNull (Some \<lparr>pv_id = 5, files = []\<rparr>) (Some 7)
     \<lparr>users = [], tools = [], findings = [], packages = [], assertions = []\<rparr> =
     (Inl (ValueError ''The sarif content must not be None.''),
      \<lparr>users = [], tools = [], findings = [], packages = [], assertions = []\<rparr>) \<and>
   import_sarif_file example_collaborators (JList []) (Some \<lparr>pv_id = 5, files = []\<rparr>) (Some 7)
     \<lparr>users = [], tools = [], findings = [], packages = [], assertions = []\<rparr> =
     (Inl (ValueError ''The sarif content must be a dict.''),
      \<lparr>users = [], tools = [], findings = [], packages = [], assertions = []\<rparr>) \<and>
   import_sarif_file example_collaborators
     (JDict [(''version'', JStr ''2.0.0''), (''runs'', JList [])])
     (Some \<lparr>pv_id = 5, files = []\<rparr>) (Some 7)
     \<lparr>users = [], tools = [], findings = [], packages = [], assertions = []\<rparr> =
     (Inl (ValueError ''Only SARIF version 2.1.0 is supported.''),
      \<lparr>users = [], tools = [], findings = [], packages = [], assertions = []\<rparr>) \<and>
   import_sarif_file example_collaborators
     (JDict [(''version'', JStr ''2.1.0''), (''runs'', JList [])]) None (Some 7)
     \<lparr>users = [], tools = [], findings = [], packages = [], assertions = []\<rparr> =
     (Inl (ValueError ''The project version must not be None.''),
      \<lparr>users = [], tools = [], findings = [], packages = [], assertions = []\<rparr>)"
  using
    import_rejects_invalid_input
      [of JNull example_collaborators "Some \<lparr>pv_id = 5, files = []\<rparr>" "Some 7"
          "\<lparr>users = [], tools = [], findings = [], packages = [], assertions = []\<rparr>"]
    import_rejects_invalid_input
      [of "JList []" example_collaborators "Some \<lparr>pv_id = 5, files = []\<rparr>" "Some 7"
          "\<lparr>users = [], tools = [], findings = [], packages = [], assertions = []\<rparr>"]
    import_rejects_invalid_input
      [of "JDict [(''version'', JStr ''2.0.0''), (''runs'', JList [])]" example_collaborators
          "Some \<lparr>pv_id = 5, files = []\<rparr>" "Some 7"
          "\<lparr>users = [], tools = [], findings = [], packages = [], assertions = []\<rparr>"]
    import_rejects_invalid_input
      [of "JDict [(''version'', JStr ''2.1.0''), (''runs'', JList [])]" example_collaborators
          None "Some 7"
          "\<lparr>users = [], tools = [], findings = [], packages = [], assertions = []\<rparr>"]
  by (simp add: dict_get_def)

text \<open>
  A location inside the source root whose file is resolved, whose run-local key is new, whose
  line the store accepts and for which no finding with the same raw title, file, line and
  project version is stored, is saved and counted.
\<close>

lemma process_location_saves:
  assumes "in_src_root (get_complex (get_complex0 ext location ''physicalLocation.artifactLocation'')
             ''uriBaseId'' (JStr ''%SRCROOT%''))"
    and "normalize_file_path (get_complex0 ext
           (get_complex0 ext location ''physicalLocation.artifactLocation'') ''uri'') = JStr p"
    and "get_most_likely_source pv p = Some f"
    and "file_line_prep ext (get_complex location ''physicalLocation.region.startLine'' JNull) =
           Inr line"
    and "(JStr m, get_complex0 ext (get_complex0 ext location ''physicalLocation.artifactLocation'') ''uri'',
          get_complex0 ext location ''physicalLocation.region.startLine'') \<notin> processed st"
    and "\<not> finding_exists m f line pv (store st)"
  shows "process_location ext pv user t (JStr m) l location st =
     (None, st\<lparr>processed := insert (JStr m, get_complex0 ext (get_complex0 ext location ''physicalLocation.artifactLocation'') ''uri'',
          get_complex0 ext location ''physicalLocation.region.startLine'') (processed st),
        store := finding_save
          \<lparr>title = m, normalized_title = normalize_title m, state = NEW, finding_file = f,
           tool = t, project_version = pv, file_line = line,
           severity_level = severity_parse ext l,
           analyst_severity_level = severity_not_specified ext,
           confidence = CONFIDENCE_NOT_SPECIFIED, created_by = user, updated_by = user\<rparr> (store st),
        num_imported := num_imported st + 1\<rparr>)"
  using assms by (simp add: process_location_def Let_def)

text \<open>The upper case of some texts: the markers in other letter case and with the long s (U+017F)
  for \<^verbatim>\<open>s\<close>, and texts that are no marker.\<close>

lemma upper_examples:
  "upper ''%SRCROOT%'' = Some ''%SRCROOT%''"
  "upper ''SrcRoot'' = Some ''SRCROOT''"
  "upper (CHR 0xC5 # CHR 0xBF # ''rcroot'') = Some ''SRCROOT''"
  "upper ''%srcroot'' = Some ''%SRCROOT''"
  "upper ''file:///src/'' = Some ''FILE:///SRC/''"
  by code_simp+

lemma normalize_title_m: "normalize_title ''m'' = ''m''"
  by code_simp

text \<open>
  Claim C9: a location whose artifact location has no \<^verbatim>\<open>uriBaseId\<close> is not skipped. The
  lookup gives the default \<^verbatim>\<open>"%SRCROOT%"\<close>, which is a marker of the source root; the key of
  the location is in \<^verbatim>\<open>processed\<close> after the body has run, and when the key is new, the file
  is resolved, the store accepts the line and holds no such finding yet, the finding is saved
  and counted. The body leaves the state as it was, which is what \<^verbatim>\<open>continue\<close> at the marker
  test does, exactly when \<^verbatim>\<open>uriBaseId\<close> is there and is not a string whose upper case is
  \<^verbatim>\<open>%SRCROOT%\<close> or \<^verbatim>\<open>SRCROOT\<close>.
\<close>

theorem location_skipped_iff:
  assumes al: "get_complex0 ext location ''physicalLocation.artifactLocation'' = JDict kvs"
  shows "(process_location ext pv user t m l location st = (None, st) \<longleftrightarrow>
           (\<exists>v. map_of kvs ''uriBaseId'' = Some v \<and>
                (\<forall>s. v = JStr s \<longrightarrow>
                     upper s \<noteq> Some ''%SRCROOT%'' \<and> upper s \<noteq> Some ''SRCROOT''))) \<and>
         (map_of kvs ''uriBaseId'' = None \<longrightarrow>
            get_complex (JDict kvs) ''uriBaseId'' (JStr ''%SRCROOT%'') = JStr ''%SRCROOT%'' \<and>
            (m, get_complex0 ext (JDict kvs) ''uri'',
             get_complex0 ext location ''physicalLocation.region.startLine'')
              \<in> processed (snd (process_location ext pv user t m l location st))) \<and>
         (\<forall>title p f line.
            map_of kvs ''uriBaseId'' = None \<and> m = JStr title \<and>
            normalize_file_path (get_complex0 ext (JDict kvs) ''uri'') = JStr p \<and>
            get_most_likely_source pv p = Some f \<and>
            file_line_prep ext
              (get_complex location ''physicalLocation.region.startLine'' JNull) = Inr line \<and>
            (m, get_complex0 ext (JDict kvs) ''uri'',
             get_complex0 ext location ''physicalLocation.region.startLine'') \<notin> processed st \<and>
            \<not> finding_exists title f line pv (store st) \<longrightarrow>
            fst (process_location ext pv user t m l location st) = None \<and>
            findings (store (snd (process_location ext pv user t m l location st))) =
              findings (store st) @
                [\<lparr>title = title, normalized_title = normalize_title title, state = NEW,
                  finding_file = f, tool = t, project_version = pv, file_line = line,
                  severity_level = severity_parse ext l,
                  analyst_severity_level = severity_not_specified ext,
                  confidence = CONFIDENCE_NOT_SPECIFIED, created_by = user,
                  updated_by = user\<rparr>] \<and>
            num_imported (snd (process_location ext pv user t m l location st)) =
              num_imported st + 1)"
proof -
  let ?key = "(m, get_complex0 ext (JDict kvs) ''uri'',
               get_complex0 ext location ''physicalLocation.region.startLine'')"
  let ?root = "get_complex (JDict kvs) ''uriBaseId'' (JStr ''%SRCROOT%'')"
  have gc: "?root = (case map_of kvs ''uriBaseId'' of None \<Rightarrow> JStr ''%SRCROOT%'' | Some v \<Rightarrow> v)"
    by (simp add: get_complex_def split: option.splits)
  have root: "in_src_root v \<longleftrightarrow>
      \<not> (\<forall>s. v = JStr s \<longrightarrow> upper s \<noteq> Some ''%SRCROOT%'' \<and> upper s \<noteq> Some ''SRCROOT'')" for v
    by (cases v) (auto simp: in_src_root_def)
  have ne1: "st\<lparr>num_imported := num_imported st + 1\<rparr> \<noteq> st"
  proof
    assume "st\<lparr>num_imported := num_imported st + 1\<rparr> = st"
    then have "num_imported (st\<lparr>num_imported := num_imported st + 1\<rparr>) = num_imported st"
      by simp
    then show False by simp
  qed
  have inkey: "?key \<in> processed (snd (process_location ext pv user t m l location st))"
    if "in_src_root ?root"
    using that
    by (auto simp: process_location_def al Let_def split: json.splits option.splits sum.splits)
  have skip: "process_location ext pv user t m l location st = (None, st)"
    if "\<not> in_src_root ?root"
    using that by (simp add: process_location_def al Let_def)
  have noskip: "process_location ext pv user t m l location st \<noteq> (None, st)"
    if r: "in_src_root ?root"
  proof (cases "?key \<in> processed st")
    case True
    with r show ?thesis
      using ne1 by (simp add: process_location_def al Let_def)
  next
    case False
    with inkey [OF r] show ?thesis by (metis snd_conv)
  qed
  have iff: "process_location ext pv user t m l location st = (None, st) \<longleftrightarrow>
           (\<exists>v. map_of kvs ''uriBaseId'' = Some v \<and> \<not> in_src_root v)"
  proof (cases "in_src_root ?root")
    case True
    with noskip show ?thesis by (auto simp: gc split: option.splits)
  next
    case False
    with skip in_src_root_default show ?thesis by (auto simp: gc split: option.splits)
  qed
  have miss: "map_of kvs ''uriBaseId'' = None \<longrightarrow> ?root = JStr ''%SRCROOT%'' \<and>
      ?key \<in> processed (snd (process_location ext pv user t m l location st))"
    using inkey in_src_root_default by (auto simp: gc)
  have saved: "fst (process_location ext pv user t m l location st) = None \<and>
            findings (store (snd (process_location ext pv user t m l location st))) =
              findings (store st) @
                [\<lparr>title = title, normalized_title = normalize_title title, state = NEW,
                  finding_file = f, tool = t, project_version = pv, file_line = line,
                  severity_level = severity_parse ext l,
                  analyst_severity_level = severity_not_specified ext,
                  confidence = CONFIDENCE_NOT_SPECIFIED, created_by = user,
                  updated_by = user\<rparr>] \<and>
            num_imported (snd (process_location ext pv user t m l location st)) =
              num_imported st + 1"
    if h: "map_of kvs ''uriBaseId'' = None" "m = JStr title"
      "normalize_file_path (get_complex0 ext (JDict kvs) ''uri'') = JStr p"
      "get_most_likely_source pv p = Some f"
      "file_line_prep ext
              (get_complex location ''physicalLocation.region.startLine'' JNull) = Inr line"
      "?key \<notin> processed st" "\<not> finding_exists title f line pv (store st)"
    for title p f line
  proof -
    have r: "in_src_root (get_complex (get_complex0 ext location
         ''physicalLocation.artifactLocation'') ''uriBaseId'' (JStr ''%SRCROOT%''))"
      using h(1) in_src_root_default by (simp add: al gc)
    show ?thesis
      using process_location_saves [of ext location p pv f line title st user t l]
        r h by (simp add: al finding_save_def)
  qed
  from iff root have iff': "process_location ext pv user t m l location st = (None, st) \<longleftrightarrow>
           (\<exists>v. map_of kvs ''uriBaseId'' = Some v \<and>
                (\<forall>s. v = JStr s \<longrightarrow>
                     upper s \<noteq> Some ''%SRCROOT%'' \<and> upper s \<noteq> Some ''SRCROOT''))"
    by simp
  show ?thesis
  proof (intro conjI)
    show "process_location ext pv user t m l location st = (None, st) \<longleftrightarrow>
           (\<exists>v. map_of kvs ''uriBaseId'' = Some v \<and>
                (\<forall>s. v = JStr s \<longrightarrow>
                     upper s \<noteq> Some ''%SRCROOT%'' \<and> upper s \<noteq> Some ''SRCROOT''))"
      by (rule iff')
  qed (rule miss, intro allI impI, elim conjE, rule saved, assumption+)
qed


text \<open>
  The examples: a location with no \<^verbatim>\<open>uriBaseId\<close>, whose finding is saved; locations whose
  \<^verbatim>\<open>uriBaseId\<close> is \<^verbatim>\<open>file:///src/\<close> and \<open>None\<close>, which are skipped; and locations whose
  \<^verbatim>\<open>uriBaseId\<close> is \<^verbatim>\<open>SrcRoot\<close> and \<^verbatim>\<open>srcroot\<close> written with the long s, which are not.
\<close>

lemma witness_artifact:
  "get_complex0 example_collaborators
     (JDict [(''physicalLocation'', JDict
        [(''artifactLocation'', JDict [(''uri'', JStr ''x.js'')]),
         (''region'', JDict [(''startLine'', JInt 3)])])])
     ''physicalLocation.artifactLocation'' = JDict [(''uri'', JStr ''x.js'')]"
  "get_complex0 example_collaborators
     (JDict [(''physicalLocation'', JDict
        [(''artifactLocation'', JDict [(''uri'', JStr ''x.js''), (''uriBaseId'', JStr ''file:///src/'')]),
         (''region'', JDict [(''startLine'', JInt 3)])])])
     ''physicalLocation.artifactLocation'' = JDict [(''uri'', JStr ''x.js''), (''uriBaseId'', JStr ''file:///src/'')]"
  "get_complex0 example_collaborators
     (JDict [(''physicalLocation'', JDict
        [(''artifactLocation'', JDict [(''uri'', JStr ''x.js''), (''uriBaseId'', JNull)]),
         (''region'', JDict [(''startLine'', JInt 3)])])])
     ''physicalLocation.artifactLocation'' = JDict [(''uri'', JStr ''x.js''), (''uriBaseId'', JNull)]"
  "get_complex0 example_collaborators
     (JDict [(''physicalLocation'', JDict
        [(''artifactLocation'', JDict [(''uri'', JStr ''x.js''), (''uriBaseId'', JStr ''SrcRoot'')]),
         (''region'', JDict [(''startLine'', JInt 3)])])])
     ''physicalLocation.artifactLocation'' = JDict [(''uri'', JStr ''x.js''), (''uriBaseId'', JStr ''SrcRoot'')]"
  "get_complex0 example_collaborators
     (JDict [(''physicalLocation'', JDict
        [(''artifactLocation'', JDict [(''uri'', JStr ''x.js''), (''uriBaseId'', JStr (CHR 0xC5 # CHR 0xBF # ''rcroot''))]),
         (''region'', JDict [(''startLine'', JInt 3)])])])
     ''physicalLocation.artifactLocation'' = JDict [(''uri'', JStr ''x.js''), (''uriBaseId'', JStr (CHR 0xC5 # CHR 0xBF # ''rcroot''))]"
  by (simp_all add: get_complex0_def get_complex_def)

theorem location_skipped_iff_witness:
  "process_location example_collaborators
     \<lparr>pv_id = 5, files = [\<lparr>file_id = 11, path = ''/repo/x.js''\<rparr>]\<rparr> 7
     \<lparr>tool_name = JStr ''t'', tool_version = JStr ''1'', tool_created_by = 7,
      tool_updated_by = 7, tool_type = STATIC_ANALYSIS\<rparr>
     (JStr ''m'') (JStr ''warning'')
     (JDict [(''physicalLocation'', JDict
        [(''artifactLocation'', JDict [(''uri'', JStr ''x.js'')]),
         (''region'', JDict [(''startLine'', JInt 3)])])])
     \<lparr>store = \<lparr>users = [], tools = [], findings = [], packages = [], assertions = []\<rparr>,
      processed = {}, num_imported = 0\<rparr> =
   (None,
    \<lparr>store = \<lparr>users = [], tools = [],
       findings = [\<lparr>title = ''m'', normalized_title = ''m'', state = NEW,
                    finding_file = \<lparr>file_id = 11, path = ''/repo/x.js''\<rparr>,
                    tool = \<lparr>tool_name = JStr ''t'', tool_version = JStr ''1'', tool_created_by = 7,
      tool_updated_by = 7, tool_type = STATIC_ANALYSIS\<rparr>,
                    project_version = \<lparr>pv_id = 5, files = [\<lparr>file_id = 11, path = ''/repo/x.js''\<rparr>]\<rparr>,
                    file_line = Some 3, severity_level = (), analyst_severity_level = (),
                    confidence = CONFIDENCE_NOT_SPECIFIED, created_by = 7, updated_by = 7\<rparr>],
       packages = [], assertions = []\<rparr>,
     processed = {(JStr ''m'', JStr ''x.js'', JInt 3)}, num_imported = 1\<rparr>) \<and>
   process_location example_collaborators
     \<lparr>pv_id = 5, files = [\<lparr>file_id = 11, path = ''/repo/x.js''\<rparr>]\<rparr> 7
     \<lparr>tool_name = JStr ''t'', tool_version = JStr ''1'', tool_created_by = 7,
      tool_updated_by = 7, tool_type = STATIC_ANALYSIS\<rparr>
     (JStr ''m'') (JStr ''warning'')
     (JDict [(''physicalLocation'', JDict
        [(''artifactLocation'', JDict [(''uri'', JStr ''x.js''), (''uriBaseId'', JStr ''file:///src/'')]),
         (''region'', JDict [(''startLine'', JInt 3)])])])
     \<lparr>store = \<lparr>users = [], tools = [], findings = [], packages = [], assertions = []\<rparr>,
      processed = {}, num_imported = 0\<rparr> =
   (None, \<lparr>store = \<lparr>users = [], tools = [], findings = [], packages = [], assertions = []\<rparr>,
      processed = {}, num_imported = 0\<rparr>) \<and>
   process_location example_collaborators
     \<lparr>pv_id = 5, files = [\<lparr>file_id = 11, path = ''/repo/x.js''\<rparr>]\<rparr> 7
     \<lparr>tool_name = JStr ''t'', tool_version = JStr ''1'', tool_created_by = 7,
      tool_updated_by = 7, tool_type = STATIC_ANALYSIS\<rparr>
     (JStr ''m'') (JStr ''warning'')
     (JDict [(''physicalLocation'', JDict
        [(''artifactLocation'', JDict [(''uri'', JStr ''x.js''), (''uriBaseId'', JNull)]),
         (''region'', JDict [(''startLine'', JInt 3)])])])
     \<lparr>store = \<lparr>users = [], tools = [], findings = [], packages = [], assertions = []\<rparr>,
      processed = {}, num_imported = 0\<rparr> =
   (None, \<lparr>store = \<lparr>users = [], tools = [], findings = [], packages = [], assertions = []\<rparr>,
      processed = {}, num_imported = 0\<rparr>) \<and>
   process_location example_collaborators
     \<lparr>pv_id = 5, files = [\<lparr>file_id = 11, path = ''/repo/x.js''\<rparr>]\<rparr> 7
     \<lparr>tool_name = JStr ''t'', tool_version = JStr ''1'', tool_created_by = 7,
      tool_updated_by = 7, tool_type = STATIC_ANALYSIS\<rparr>
     (JStr ''m'') (JStr ''warning'')
     (JDict [(''physicalLocation'', JDict
        [(''artifactLocation'', JDict [(''uri'', JStr ''x.js''), (''uriBaseId'', JStr ''SrcRoot'')]),
         (''region'', JDict [(''startLine'', JInt 3)])])])
     \<lparr>store = \<lparr>users = [], tools = [], findings = [], packages = [], assertions = []\<rparr>,
      processed = {}, num_imported = 0\<rparr> \<noteq>
   (None, \<lparr>store = \<lparr>users = [], tools = [], findings = [], packages = [], assertions = []\<rparr>,
      processed = {}, num_imported = 0\<rparr>) \<and>
   process_location example_collaborators
     \<lparr>pv_id = 5, files = [\<lparr>file_id = 11, path = ''/repo/x.js''\<rparr>]\<rparr> 7
     \<lparr>tool_name = JStr ''t'', tool_version = JStr ''1'', tool_created_by = 7,
      tool_updated_by = 7, tool_type = STATIC_ANALYSIS\<rparr>
     (JStr ''m'') (JStr ''warning'')
     (JDict [(''physicalLocation'', JDict
        [(''artifactLocation'', JDict [(''uri'', JStr ''x.js''), (''uriBaseId'', JStr (CHR 0xC5 # CHR 0xBF # ''rcroot''))]),
         (''region'', JDict [(''startLine'', JInt 3)])])])
     \<lparr>store = \<lparr>users = [], tools = [], findings = [], packages = [], assertions = []\<rparr>,
      processed = {}, num_imported = 0\<rparr> \<noteq>
   (None, \<lparr>store = \<lparr>users = [], tools = [], findings = [], packages = [], assertions = []\<rparr>,
      processed = {}, num_imported = 0\<rparr>)"
  using
    location_skipped_iff [OF witness_artifact(1), of
      "\<lparr>pv_id = 5, files = [\<lparr>file_id = 11, path = ''/repo/x.js''\<rparr>]\<rparr>" 7
      "\<lparr>tool_name = JStr ''t'', tool_version = JStr ''1'', tool_created_by = 7,
      tool_updated_by = 7, tool_type = STATIC_ANALYSIS\<rparr>"
      "JStr ''m''" "JStr ''warning''"
      "\<lparr>store = \<lparr>users = [], tools = [], findings = [], packages = [], assertions = []\<rparr>,
      processed = {}, num_imported = 0\<rparr>"]
    location_skipped_iff [OF witness_artifact(2), of
      "\<lparr>pv_id = 5, files = [\<lparr>file_id = 11, path = ''/repo/x.js''\<rparr>]\<rparr>" 7
      "\<lparr>tool_name = JStr ''t'', tool_version = JStr ''1'', tool_created_by = 7,
      tool_updated_by = 7, tool_type = STATIC_ANALYSIS\<rparr>"
      "JStr ''m''" "JStr ''warning''"
      "\<lparr>store = \<lparr>users = [], tools = [], findings = [], packages = [], assertions = []\<rparr>,
      processed = {}, num_imported = 0\<rparr>"]
    location_skipped_iff [OF witness_artifact(3), of
      "\<lparr>pv_id = 5, files = [\<lparr>file_id = 11, path = ''/repo/x.js''\<rparr>]\<rparr>" 7
      "\<lparr>tool_name = JStr ''t'', tool_version = JStr ''1'', tool_created_by = 7,
      tool_updated_by = 7, tool_type = STATIC_ANALYSIS\<rparr>"
      "JStr ''m''" "JStr ''warning''"
      "\<lparr>store = \<lparr>users = [], tools = [], findings = [], packages = [], assertions = []\<rparr>,
      processed = {}, num_imported = 0\<rparr>"]
    location_skipped_iff [OF witness_artifact(4), of
      "\<lparr>pv_id = 5, files = [\<lparr>file_id = 11, path = ''/repo/x.js''\<rparr>]\<rparr>" 7
      "\<lparr>tool_name = JStr ''t'', tool_version = JStr ''1'', tool_created_by = 7,
      tool_updated_by = 7, tool_type = STATIC_ANALYSIS\<rparr>"
      "JStr ''m''" "JStr ''warning''"
      "\<lparr>store = \<lparr>users = [], tools = [], findings = [], packages = [], assertions = []\<rparr>,
      processed = {}, num_imported = 0\<rparr>"]
    location_skipped_iff [OF witness_artifact(5), of
      "\<lparr>pv_id = 5, files = [\<lparr>file_id = 11, path = ''/repo/x.js''\<rparr>]\<rparr>" 7
      "\<lparr>tool_name = JStr ''t'', tool_version = JStr ''1'', tool_created_by = 7,
      tool_updated_by = 7, tool_type = STATIC_ANALYSIS\<rparr>"
      "JStr ''m''" "JStr ''warning''"
      "\<lparr>store = \<lparr>users = [], tools = [], findings = [], packages = [], assertions = []\<rparr>,
      processed = {}, num_imported = 0\<rparr>"]
  by (simp add: upper_examples process_location_def get_complex0_def get_complex_def
      in_src_root_def normalize_file_path_def normalize_file_path_try_def
      get_most_likely_source_def possible_files_def basename_def sep_def endswith_def
      finding_exists_def finding_save_def example_collaborators_def normalize_title_m
      Let_def)

subsection \<open>Raw titles, not normalised titles, decide de-duplication\<close>




end
